theory Spec2Isabelle
  imports Main
begin

section \<open>The popup of the Gerrit monitor (src/popup.js)\<close>

text \<open>
  The popup builds a tree of widgets (PopupWidget, SectionWidget, ChangelistWidget) from
  the search results, renders it through a fluent DOM builder, and switches an overlay,
  a login panel and a grant-permissions button on and off. The widgets and the
  orchestration functions are translated from popup.js; what popup.js imports from other
  modules (the DOM builder, the message tables, the configuration markers, the page's
  elements) is a parameter or a small model, marked as such.
\<close>

subsection \<open>Data owned by the fetch layer\<close>

text \<open>
  A reviewer entry as the render callback reads it: \<open>info.name\<close> and \<open>info.value\<close>.
\<close>

record reviewer =
  r_name :: string
  r_value :: int

text \<open>The description object of a CL; \<open>getMessage()\<close> reads \<open>d_message\<close>.\<close>

record description =
  d_message :: string

text \<open>
  A CL record (gerrit.Changelist), as the values its accessors return: \<open>getGerritUrl()\<close>,
  \<open>getAuthor()\<close>, \<open>getSizeCategory()\<close>, \<open>getReviewers()\<close>, \<open>getDescription()\<close>,
  \<open>hasUnresolvedComments()\<close> and \<open>isSubmittable()\<close>.
\<close>

record changelist =
  cl_gerritUrl :: string
  cl_author :: string
  cl_sizeCategory :: string
  cl_reviewers :: "reviewer list"
  cl_description :: description
  cl_hasUnresolvedComments :: bool
  cl_isSubmittable :: bool

text \<open>An allowed instance, as gerrit.fetchAllowedInstances() resolves to a list of them.\<close>

record allowed_instance =
  i_host :: string
  i_name :: string

text \<open>
  The display metadata of an attention category: an entry of messages.POPUP_SECTION_DATA.
\<close>

record section_data =
  className :: string
  formatHeader :: "nat \<Rightarrow> string"

text \<open>
  The constants popup.js reads from messages.js and config.js. The attention categories
  are the values of the type \<open>'a\<close>; POPUP_SECTION_DATA gives every one its metadata.
\<close>

record 'a messages =
  SECTION_ORDERING :: "'a list"
  POPUP_SECTION_DATA :: "'a \<Rightarrow> section_data"
  NO_CLS_MESSAGE :: string

record config =
  LOGIN_PROMPT :: string
  NO_HOST_ALLOWED :: string

text \<open>
  The category map of a SearchResults (\<open>results.getCategoryMap()\<close>): a keyed collection
  with an insertion order, read by \<open>has\<close> and \<open>get\<close>; \<open>map_of\<close> is that lookup
  (\<open>None\<close> where \<open>has\<close> is false, \<open>Some cls\<close> where \<open>get\<close> returns \<open>cls\<close>).
\<close>

type_synonym 'a category_map = "('a \<times> changelist list) list"

subsection \<open>The DOM and its builder\<close>

text \<open>What a click listener registered by popup.js does when it fires.\<close>

datatype listener = OpenUrl string | OpenOptionsPage

datatype element =
  Element (tagName: string) (classList: "string list") (attributes: "(string \<times> string) list")
    (clickListeners: "listener list") (childNodes: "child list")
and child = ChildElement element | ChildText string

fun appendChild :: "child \<Rightarrow> element \<Rightarrow> element" where
  "appendChild c (Element t cs as ls ch) = Element t cs as ls (ch @ [c])"

fun firstChild :: "element \<Rightarrow> child option" where
  "firstChild (Element t cs as ls []) = None"
| "firstChild (Element t cs as ls (c # ch)) = Some c"

text \<open>\<open>removeChild\<close> takes one occurrence of the child out of the children.\<close>

fun removeChild :: "child \<Rightarrow> element \<Rightarrow> element" where
  "removeChild c (Element t cs as ls ch) = Element t cs as ls (remove1 c ch)"

fun addEventListener :: "listener \<Rightarrow> element \<Rightarrow> element" where
  "addEventListener l (Element t cs as ls ch) = Element t cs as (ls @ [l]) ch"

text \<open>
  Modelled from the spec: dombuilder.DomBuilder, which is not part of popup.js. The spec
  calls it a fluent helper that creates and appends DOM nodes, sets attributes, classes
  and text, and supports iteration callbacks. The model is the definitions from
  \<open>builder\<close> to \<open>db_root\<close>: the builder holds the node it is working on and the open
  nodes around it; \<open>begin\<close> opens a new element, \<open>end\<close> closes it and appends it to
  the node around it, and \<open>addClass\<close>, \<open>setAttribute\<close>, \<open>appendText\<close> and
  \<open>withCurrentNode\<close> act on the current node, recording what they are given.
\<close>

datatype builder = Builder (current: element) (parents: "element list")

definition db_attach :: "element \<Rightarrow> builder" where
  "db_attach e = Builder e []"

fun db_begin :: "string \<Rightarrow> builder \<Rightarrow> builder" where
  "db_begin t (Builder cur ps) = Builder (Element t [] [] [] []) (cur # ps)"

fun db_end :: "string \<Rightarrow> builder \<Rightarrow> builder" where
  "db_end t (Builder cur (p # ps)) = Builder (appendChild (ChildElement cur) p) ps"
| "db_end t (Builder cur []) = Builder cur []"

fun db_addClass :: "string \<Rightarrow> builder \<Rightarrow> builder" where
  "db_addClass c (Builder (Element t cs as ls ch) ps) = Builder (Element t (cs @ [c]) as ls ch) ps"

fun db_setAttribute :: "string \<Rightarrow> string \<Rightarrow> builder \<Rightarrow> builder" where
  "db_setAttribute k v (Builder (Element t cs as ls ch) ps) =
     Builder (Element t cs (as @ [(k, v)]) ls ch) ps"

fun db_appendText :: "string \<Rightarrow> builder \<Rightarrow> builder" where
  "db_appendText s (Builder cur ps) = Builder (appendChild (ChildText s) cur) ps"

fun db_withCurrentNode :: "(element \<Rightarrow> element) \<Rightarrow> builder \<Rightarrow> builder" where
  "db_withCurrentNode f (Builder cur ps) = Builder (f cur) ps"

text \<open>
  Modelled from the spec: the iteration callback of the builder. \<open>forEach(items, callback)\<close>
  calls \<open>callback(item, builder, index)\<close> on every item in order, the index counting
  from 0, as popup.js declares its callbacks.
\<close>

fun forEach_from :: "nat \<Rightarrow> 'x list \<Rightarrow> ('x \<Rightarrow> builder \<Rightarrow> nat \<Rightarrow> builder) \<Rightarrow> builder \<Rightarrow> builder" where
  "forEach_from i [] f b = b"
| "forEach_from i (x # xs) f b = forEach_from (Suc i) xs f (f x b i)"

definition db_forEach :: "'x list \<Rightarrow> ('x \<Rightarrow> builder \<Rightarrow> nat \<Rightarrow> builder) \<Rightarrow> builder \<Rightarrow> builder" where
  "db_forEach items f b = forEach_from 0 items f b"

text \<open>The element the builder was attached to, once every open node is closed.\<close>

fun close_all :: "element \<Rightarrow> element list \<Rightarrow> element" where
  "close_all cur [] = cur"
| "close_all cur (p # ps) = close_all (appendChild (ChildElement cur) p) ps"

fun db_root :: "builder \<Rightarrow> element" where
  "db_root (Builder cur ps) = close_all cur ps"

text \<open>
  A fluent chain \<open>builder.m1(..).m2(..)...\<close>: the methods applied to the builder in the
  order they are written.
\<close>

definition chain :: "'b \<Rightarrow> ('b \<Rightarrow> 'b) list \<Rightarrow> 'b" where
  "chain b ms = foldl (\<lambda>b m. m b) b ms"

subsection \<open>ChangelistWidget\<close>

record ChangelistWidget =
  cw_cl :: changelist

definition wrap :: "changelist \<Rightarrow> ChangelistWidget" where
  "wrap cl = \<lparr>cw_cl = cl\<rparr>"

definition getGerritUrl :: "ChangelistWidget \<Rightarrow> string" where
  "getGerritUrl w = cl_gerritUrl (cw_cl w)"

definition getAuthor :: "ChangelistWidget \<Rightarrow> string" where
  "getAuthor w = cl_author (cw_cl w)"

text \<open>
  The method returns \<open>''\<close> in its first statement; the three returns after it are kept
  as the branch that is never taken.
\<close>

definition getStatusMarker :: "ChangelistWidget \<Rightarrow> string" where
  "getStatusMarker w =
     (if True then ''''
      else if cl_hasUnresolvedComments (cw_cl w) then ''tbr''
      else if cl_isSubmittable (cw_cl w) then ''lgtm''
      else ''pending'')"

definition getSizeCategory :: "ChangelistWidget \<Rightarrow> string" where
  "getSizeCategory w = cl_sizeCategory (cw_cl w)"

definition getReviewers :: "ChangelistWidget \<Rightarrow> reviewer list" where
  "getReviewers w = cl_reviewers (cw_cl w)"

definition getDescription :: "ChangelistWidget \<Rightarrow> description" where
  "getDescription w = cl_description (cw_cl w)"

definition getMessage :: "description \<Rightarrow> string" where
  "getMessage d = d_message d"

definition setHeader :: "ChangelistWidget \<Rightarrow> element \<Rightarrow> element" where
  "setHeader w node = addEventListener (OpenUrl (getGerritUrl w)) node"

text \<open>The callback of the reviewers cell (popup.js, lines 183 to 192).\<close>

definition render_reviewer :: "reviewer \<Rightarrow> builder \<Rightarrow> nat \<Rightarrow> builder" where
  "render_reviewer info builder index =
     (let builder1 = (if index > 0 then db_appendText '', '' builder else builder);
          lgtm = (r_value info > 0)
      in chain builder1
           [db_begin ''span'',
              db_addClass (if lgtm then ''lgtmreviewer'' else ''nolgtmreviewer''),
              db_appendText (r_name info),
            db_end ''span''])"

definition ChangelistWidget_render :: "ChangelistWidget \<Rightarrow> builder \<Rightarrow> builder" where
  "ChangelistWidget_render w builder =
     chain builder
       [db_begin ''div'',
          db_addClass ''changelist'',
          db_begin ''div'',
            db_addClass ''changelistheader'',
            db_withCurrentNode (setHeader w),
            db_begin ''table'',
              db_addClass ''changelisttable'',
              db_begin ''tr'',
                db_begin ''td'',
                  db_begin ''div'',
                    db_addClass ''statusmarker'',
                    db_begin ''div'',
                      db_addClass ''marker'',
                      db_addClass (getStatusMarker w @ ''marker''),
                      db_addClass (getSizeCategory w @ ''size''),
                    db_end ''div'',
                  db_end ''div'',
                db_end ''td'',
                db_begin ''td'',
                  db_begin ''div'',
                    db_addClass ''author'',
                    db_appendText (getAuthor w),
                  db_end ''div'',
                db_end ''td'',
                db_begin ''td'',
                  db_begin ''div'',
                    db_addClass ''reviewers'',
                    db_forEach (getReviewers w) render_reviewer,
                  db_end ''div'',
                db_end ''td'',
                db_begin ''td'',
                  db_begin ''div'',
                    db_addClass ''description'',
                    db_appendText (getMessage (getDescription w)),
                  db_end ''div'',
                db_end ''td'',
              db_end ''tr'',
            db_end ''table'',
          db_end ''div'',
        db_end ''div'']"

subsection \<open>SectionWidget\<close>

record 'a SectionWidget =
  sw_attention :: 'a
  sw_cls :: "ChangelistWidget list"

definition SectionWidget_new :: "'a \<Rightarrow> 'a SectionWidget" where
  "SectionWidget_new attention = \<lparr>sw_attention = attention, sw_cls = []\<rparr>"

definition addChangelist :: "ChangelistWidget \<Rightarrow> 'a SectionWidget \<Rightarrow> 'a SectionWidget" where
  "addChangelist cl w = w\<lparr>sw_cls := sw_cls w @ [cl]\<rparr>"

definition SectionWidget_render :: "'a messages \<Rightarrow> 'a SectionWidget \<Rightarrow> builder \<Rightarrow> builder" where
  "SectionWidget_render messages w builder =
     (let data = POPUP_SECTION_DATA messages (sw_attention w)
      in chain builder
           [db_begin ''div'',
              db_addClass ''section'',
              db_addClass (className data),
              db_begin ''div'',
                db_appendText (formatHeader data (length (sw_cls w))),
                db_addClass ''sectionheader'',
              db_end ''div'',
              db_forEach (sw_cls w) (\<lambda>cl builder index. ChangelistWidget_render cl builder),
            db_end ''div''])"

definition SectionWidget_create :: "'a \<Rightarrow> changelist list \<Rightarrow> 'a SectionWidget" where
  "SectionWidget_create attention cls =
     foldl (\<lambda>widget cl. addChangelist (wrap cl) widget) (SectionWidget_new attention) cls"

subsection \<open>PopupWidget\<close>

record 'a PopupWidget =
  pw_sections :: "'a SectionWidget list"

definition PopupWidget_new :: "'a PopupWidget" where
  "PopupWidget_new = \<lparr>pw_sections = []\<rparr>"

definition getSections :: "'a PopupWidget \<Rightarrow> 'a SectionWidget list" where
  "getSections w = pw_sections w"

text \<open>The argument is \<open>None\<close> for \<open>null\<close> (and \<open>undefined\<close>, which \<open>!= null\<close> also rejects).\<close>

definition addSection :: "'a SectionWidget option \<Rightarrow> 'a PopupWidget \<Rightarrow> 'a PopupWidget" where
  "addSection section w =
     (case section of
        Some s \<Rightarrow> w\<lparr>pw_sections := pw_sections w @ [s]\<rparr>
      | None \<Rightarrow> w)"

definition PopupWidget_render :: "'a messages \<Rightarrow> 'a PopupWidget \<Rightarrow> builder \<Rightarrow> builder" where
  "PopupWidget_render messages w builder =
     foldl (\<lambda>builder section. SectionWidget_render messages section builder) builder (pw_sections w)"

definition PopupWidget_create :: "'a messages \<Rightarrow> 'a category_map \<Rightarrow> 'a PopupWidget" where
  "PopupWidget_create messages categories =
     foldl (\<lambda>widget attention.
              (case map_of categories attention of
                 Some cls \<Rightarrow> addSection (Some (SectionWidget_create attention cls)) widget
               | None \<Rightarrow> widget))
       PopupWidget_new (SECTION_ORDERING messages)"

subsection \<open>The page and the orchestration functions\<close>

text \<open>
  The callbacks popup.js hands to a promise and that run later, when the promise of
  gerrit.fetchAllowedInstances() resolves: the one of setLoginLinkVisible.
\<close>

datatype task = PopulateLogin

text \<open>
  What popup.js reads and writes of the page, by element identifier (the argument of
  \<open>browser.getElement\<close>): \<open>style.display\<close> (\<open>None\<close> is \<open>null\<close>), \<open>innerText\<close>, and the
  element's listeners and children; and the callbacks waiting for their promise.
\<close>

record page =
  style_display :: "string \<Rightarrow> string option"
  innerText :: "string \<Rightarrow> string"
  elements :: "string \<Rightarrow> element"
  pending :: "task list"

text \<open>An element is shown unless its \<open>style.display\<close> is \<open>'none'\<close>.\<close>

definition is_visible :: "page \<Rightarrow> string \<Rightarrow> bool" where
  "is_visible st identifier = (style_display st identifier \<noteq> Some ''none'')"

text \<open>\<open>String.prototype.includes\<close>: the argument occurs somewhere in the string.\<close>

fun includes_str :: "string \<Rightarrow> string \<Rightarrow> bool" where
  "includes_str [] sub = (sub = [])"
| "includes_str (c # cs) sub = (take (length sub) (c # cs) = sub \<or> includes_str cs sub)"

definition setOverlayText :: "string \<Rightarrow> page \<Rightarrow> page" where
  "setOverlayText v st = st\<lparr>innerText := (innerText st)(''overlay-text'' := v)\<rparr>"

definition setElementVisibility :: "string \<Rightarrow> bool \<Rightarrow> page \<Rightarrow> page" where
  "setElementVisibility identifier visible st =
     st\<lparr>style_display :=
          (style_display st)(identifier := (if visible then None else Some ''none''))\<rparr>"

definition setGrantPermissionsButtonVisible :: "bool \<Rightarrow> page \<Rightarrow> page" where
  "setGrantPermissionsButtonVisible visible st =
     (let st1 = setElementVisibility ''permissions'' visible st
      in if visible
         then st1\<lparr>elements := (elements st1)(''permissions-button'' :=
                    addEventListener OpenOptionsPage (elements st1 ''permissions-button''))\<rparr>
         else st1)"

text \<open>The loop \<open>while (login.firstChild) login.removeChild(login.firstChild)\<close>.\<close>

function remove_children :: "element \<Rightarrow> element" where
  "remove_children login =
     (case firstChild login of
        None \<Rightarrow> login
      | Some c \<Rightarrow> remove_children (removeChild c login))"
  by pat_completeness auto
termination
proof (relation "measure (\<lambda>e. length (childNodes e))")
  show "wf (measure (\<lambda>e. length (childNodes e)))"
    by simp
next
  fix login :: element and c :: child
  assume "firstChild login = Some c"
  then show "(removeChild c login, login) \<in> measure (\<lambda>e. length (childNodes e))"
    by (cases login; cases "childNodes login") auto
qed

declare remove_children.simps [simp del]

text \<open>The callback given to \<open>fetchAllowedInstances().then\<close> (popup.js, lines 284 to 298).\<close>

definition render_instance :: "allowed_instance \<Rightarrow> builder \<Rightarrow> nat \<Rightarrow> builder" where
  "render_instance inst builder index =
     chain builder
       [db_begin ''a'',
          db_setAttribute ''target'' ''_blank'',
          db_setAttribute ''href'' (i_host inst),
          db_appendText (i_name inst),
        db_end ''a'',
        db_begin ''br'',
        db_end ''br'']"

definition populate_login :: "allowed_instance list \<Rightarrow> page \<Rightarrow> page" where
  "populate_login instances st =
     st\<lparr>elements := (elements st)(''login'' :=
          db_root (chain (db_attach (elements st ''login''))
            [db_begin ''div'',
               db_forEach instances render_instance,
             db_end ''div'']))\<rparr>"

definition setLoginLinkVisible :: "bool \<Rightarrow> page \<Rightarrow> page" where
  "setLoginLinkVisible visible st =
     (let st1 = setElementVisibility ''login'' visible st
      in if \<not> visible then st1
         else
           (let login = elements st1 ''login'';
                st2 = st1\<lparr>elements := (elements st1)(''login'' := remove_children login)\<rparr>
            in st2\<lparr>pending := pending st2 @ [PopulateLogin]\<rparr>))"

text \<open>
  The promise of the oldest waiting callback resolves to \<open>instances\<close>: the callback runs.
\<close>

fun run_task :: "task \<Rightarrow> allowed_instance list \<Rightarrow> page \<Rightarrow> page" where
  "run_task PopulateLogin instances st = populate_login instances st"

definition resolve_next :: "allowed_instance list \<Rightarrow> page \<Rightarrow> page" where
  "resolve_next instances st =
     (case pending st of
        [] \<Rightarrow> st
      | t # ts \<Rightarrow> run_task t instances (st\<lparr>pending := ts\<rparr>))"

definition setOverlayVisible :: "bool \<Rightarrow> page \<Rightarrow> page" where
  "setOverlayVisible visible st =
     (if visible
      then st\<lparr>style_display := (style_display st)(''overlay'' := None, ''results'' := Some ''none'')\<rparr>
      else
        (let st1 = st\<lparr>style_display :=
                        (style_display st)(''overlay'' := Some ''none'', ''results'' := None)\<rparr>;
             st2 = setGrantPermissionsButtonVisible False st1
         in setLoginLinkVisible False st2))"

definition renderWidget :: "'a messages \<Rightarrow> 'a PopupWidget \<Rightarrow> page \<Rightarrow> page" where
  "renderWidget messages widget st =
     (if length (getSections widget) = 0
      then setOverlayVisible True (setOverlayText (NO_CLS_MESSAGE messages @ ''.'') st)
      else
        (let st1 = st\<lparr>elements := (elements st)(''results'' :=
                        db_root (PopupWidget_render messages widget
                          (db_attach (elements st ''results''))))\<rparr>
         in setOverlayVisible False st1))"

text \<open>\<open>toStr\<close> is the conversion \<open>String(error)\<close>.\<close>

definition displayError :: "('e \<Rightarrow> string) \<Rightarrow> config \<Rightarrow> 'e \<Rightarrow> page \<Rightarrow> page" where
  "displayError toStr config error st =
     (let error_string = toStr error;
          st1 = setOverlayText error_string st;
          st2 = setOverlayVisible True st1;
          st3 = setLoginLinkVisible (includes_str error_string (LOGIN_PROMPT config)) st2
      in setGrantPermissionsButtonVisible (includes_str error_string (NO_HOST_ALLOWED config)) st3)"

subsection \<open>What the rendering is compared with\<close>

text \<open>
  The text a DOM node shows: the texts of its descendants, in document order.
\<close>

fun textContent :: "element \<Rightarrow> string"
  and textContent_child :: "child \<Rightarrow> string"
  and textContent_children :: "child list \<Rightarrow> string" where
  "textContent (Element t cs as ls ch) = textContent_children ch"
| "textContent_child (ChildElement e) = textContent e"
| "textContent_child (ChildText s) = s"
| "textContent_children [] = []"
| "textContent_children (c # ch) = textContent_child c @ textContent_children ch"

text \<open>
  The spec's reviewers cell: the names joined by a separator that stands between two
  entries only, every reviewer marked approved when its value is positive.
\<close>

fun separated :: "'x \<Rightarrow> 'x list \<Rightarrow> 'x list" where
  "separated sep [] = []"
| "separated sep [x] = [x]"
| "separated sep (x # y # ys) = x # sep # separated sep (y # ys)"

fun join :: "string \<Rightarrow> string list \<Rightarrow> string" where
  "join sep [] = []"
| "join sep [x] = x"
| "join sep (x # y # ys) = x @ sep @ join sep (y # ys)"

definition reviewer_class :: "reviewer \<Rightarrow> string" where
  "reviewer_class r = (if r_value r > 0 then ''lgtmreviewer'' else ''nolgtmreviewer'')"

definition reviewer_span :: "reviewer \<Rightarrow> child" where
  "reviewer_span r = ChildElement (Element ''span'' [reviewer_class r] [] [] [ChildText (r_name r)])"

text \<open>
  The row of one CL, from the values it shows: the URL its header opens on a click, the
  classes of its marker, the author, the content of the reviewers cell and the message of
  the description.
\<close>

definition row_node :: "string \<Rightarrow> string list \<Rightarrow> string \<Rightarrow> child list \<Rightarrow> string \<Rightarrow> element" where
  "row_node url marker_classes author reviewers message =
     Element ''div'' [''changelist''] [] []
       [ChildElement (Element ''div'' [''changelistheader''] [] [OpenUrl url]
         [ChildElement (Element ''table'' [''changelisttable''] [] []
           [ChildElement (Element ''tr'' [] [] []
             [ChildElement (Element ''td'' [] [] []
                [ChildElement (Element ''div'' [''statusmarker''] [] []
                  [ChildElement (Element ''div'' marker_classes [] [] [])])]),
              ChildElement (Element ''td'' [] [] []
                [ChildElement (Element ''div'' [''author''] [] [] [ChildText author])]),
              ChildElement (Element ''td'' [] [] []
                [ChildElement (Element ''div'' [''reviewers''] [] [] reviewers)]),
              ChildElement (Element ''td'' [] [] []
                [ChildElement (Element ''div'' [''description''] [] []
                  [ChildText message])])])])])]"

text \<open>
  The row of a wrapped CL record, written from the fields of the record: the marker
  carries the classes \<open>marker\<close>, \<open>marker\<close> again (the empty status followed by
  \<open>marker\<close>) and the size, and the reviewers cell holds the reviewers of the record.
\<close>

definition changelist_row :: "ChangelistWidget \<Rightarrow> element" where
  "changelist_row w =
     row_node (cl_gerritUrl (cw_cl w))
       [''marker'', ''marker'', cl_sizeCategory (cw_cl w) @ ''size'']
       (cl_author (cw_cl w))
       (separated (ChildText '', '') (map reviewer_span (cl_reviewers (cw_cl w))))
       (d_message (cl_description (cw_cl w)))"

text \<open>
  The elements of a tree that carry a class, the element itself included, in document
  order.
\<close>

fun elementsByClass :: "string \<Rightarrow> element \<Rightarrow> element list"
  and elementsByClass_child :: "string \<Rightarrow> child \<Rightarrow> element list"
  and elementsByClass_children :: "string \<Rightarrow> child list \<Rightarrow> element list" where
  "elementsByClass c (Element t cs as ls ch) =
     (if c \<in> set cs then [Element t cs as ls ch] else []) @ elementsByClass_children c ch"
| "elementsByClass_child c (ChildElement e) = elementsByClass c e"
| "elementsByClass_child c (ChildText s) = []"
| "elementsByClass_children c [] = []"
| "elementsByClass_children c (x # xs) =
     elementsByClass_child c x @ elementsByClass_children c xs"

text \<open>The node of one section, as the spec describes it.\<close>

definition section_node :: "'a messages \<Rightarrow> 'a SectionWidget \<Rightarrow> element" where
  "section_node messages w =
     Element ''div'' [''section'', className (POPUP_SECTION_DATA messages (sw_attention w))] [] []
       (ChildElement (Element ''div'' [''sectionheader''] [] []
          [ChildText (formatHeader (POPUP_SECTION_DATA messages (sw_attention w))
             (length (sw_cls w)))])
        # map (\<lambda>cl. ChildElement (changelist_row cl)) (sw_cls w))"

text \<open>A page with nothing hidden, no text, empty elements and no callback waiting.\<close>

definition page0 :: page where
  "page0 = \<lparr>style_display = (\<lambda>identifier. None), innerText = (\<lambda>identifier. ''''),
            elements = (\<lambda>identifier. Element ''div'' [] [] [] []), pending = []\<rparr>"


text \<open>
  The login panel as the callback of setLoginLinkVisible fills it: one \<open>div\<close> holding,
  for every allowed instance, a link to its host and a line break.
\<close>

definition instance_link :: "allowed_instance \<Rightarrow> child list" where
  "instance_link inst =
     [ChildElement (Element ''a'' [] [(''target'', ''_blank''), (''href'', i_host inst)] []
        [ChildText (i_name inst)]),
      ChildElement (Element ''br'' [] [] [] [])]"

definition login_links :: "allowed_instance list \<Rightarrow> child" where
  "login_links instances = ChildElement (Element ''div'' [] [] [] (concat (map instance_link instances)))"

text \<open>Concrete inputs: message tables, a CL with two reviewers, an allowed instance.\<close>

definition data0 :: section_data where
  "data0 = \<lparr>className = ''toreview'', formatHeader = (\<lambda>n. ''To review'')\<rparr>"

definition messages0 :: "string messages" where
  "messages0 = \<lparr>SECTION_ORDERING = [''a'', ''b'', ''c''], POPUP_SECTION_DATA = (\<lambda>attention. data0),
                NO_CLS_MESSAGE = ''No CLs''\<rparr>"

definition cl0 :: changelist where
  "cl0 = \<lparr>cl_gerritUrl = ''u'', cl_author = ''me'', cl_sizeCategory = ''small'',
          cl_reviewers = [\<lparr>r_name = ''A'', r_value = 1\<rparr>, \<lparr>r_name = ''B'', r_value = 0\<rparr>],
          cl_description = \<lparr>d_message = ''fix''\<rparr>,
          cl_hasUnresolvedComments = False, cl_isSubmittable = True\<rparr>"

definition instance0 :: allowed_instance where
  "instance0 = \<lparr>i_host = ''https://review.example.org'', i_name = ''Example''\<rparr>"

section \<open>Properties\<close>

subsection \<open>The builder: what a chain of calls leaves in the tree\<close>

lemma chain_Nil: "chain b [] = b"
  by (simp add: chain_def)

lemma chain_Cons: "chain b (m # ms) = chain (m b) ms"
  by (simp add: chain_def)

lemma forEach_from_appends:
  assumes "\<And>x i t cs as ls ch ps.
             f x (Builder (Element t cs as ls ch) ps) i = Builder (Element t cs as ls (ch @ g x)) ps"
  shows "forEach_from i xs f (Builder (Element t cs as ls ch) ps) =
           Builder (Element t cs as ls (ch @ concat (map g xs))) ps"
  by (induction xs arbitrary: i ch) (simp_all add: assms)

lemma separated_Cons: "separated sep (x # xs) = x # concat (map (\<lambda>y. [sep, y]) xs)"
  by (induction xs arbitrary: x) auto

lemma render_reviewer_first:
  "render_reviewer r (Builder (Element t cs as ls ch) ps) 0 =
     Builder (Element t cs as ls (ch @ [reviewer_span r])) ps"
  by (simp add: render_reviewer_def reviewer_span_def reviewer_class_def chain_Nil chain_Cons
      Let_def)

lemma render_reviewer_next:
  "render_reviewer r (Builder (Element t cs as ls ch) ps) (Suc i) =
     Builder (Element t cs as ls (ch @ [ChildText '', '', reviewer_span r])) ps"
  by (simp add: render_reviewer_def reviewer_span_def reviewer_class_def chain_Nil chain_Cons
      Let_def)

lemma forEach_reviewers_next:
  "forEach_from (Suc i) rs render_reviewer (Builder (Element t cs as ls ch) ps) =
     Builder (Element t cs as ls
       (ch @ concat (map (\<lambda>y. [ChildText '', '', y]) (map reviewer_span rs)))) ps"
  by (induction rs arbitrary: i ch) (simp_all add: render_reviewer_next)

lemma forEach_reviewers:
  "db_forEach rs render_reviewer (Builder (Element t cs as ls ch) ps) =
     Builder (Element t cs as ls (ch @ separated (ChildText '', '') (map reviewer_span rs))) ps"
  by (cases rs)
    (simp_all add: db_forEach_def render_reviewer_first forEach_reviewers_next separated_Cons)

lemma text_separated:
  "textContent_children (separated (ChildText '', '') (map reviewer_span rs)) =
     join '', '' (map r_name rs)"
  by (induction rs rule: induct_list012) (simp_all add: reviewer_span_def)

lemma ChangelistWidget_render_row:
  "ChangelistWidget_render w (Builder (Element t cs as ls ch) ps) =
     Builder (Element t cs as ls (ch @ [ChildElement (changelist_row w)])) ps"
  by (simp add: ChangelistWidget_render_def chain_Cons chain_Nil forEach_reviewers setHeader_def
      changelist_row_def row_node_def getGerritUrl_def getStatusMarker_def getSizeCategory_def
      getAuthor_def getReviewers_def getDescription_def getMessage_def)

lemma elementsByClass_reviewer_spans:
  assumes "c \<noteq> ''lgtmreviewer''" and "c \<noteq> ''nolgtmreviewer''"
  shows "elementsByClass_children c (separated (ChildText '', '') (map reviewer_span rs)) = []"
  using assms
  by (induction rs rule: induct_list012) (simp_all add: reviewer_span_def reviewer_class_def)

lemma forEach_rows:
  "db_forEach cls (\<lambda>cl builder index. ChangelistWidget_render cl builder)
       (Builder (Element t cs as ls ch) ps) =
     Builder (Element t cs as ls (ch @ map (\<lambda>cl. ChildElement (changelist_row cl)) cls)) ps"
proof -
  have "forEach_from 0 cls (\<lambda>cl builder index. ChangelistWidget_render cl builder)
          (Builder (Element t cs as ls ch) ps) =
        Builder (Element t cs as ls
          (ch @ concat (map (\<lambda>cl. [ChildElement (changelist_row cl)]) cls))) ps"
    by (rule forEach_from_appends) (simp add: ChangelistWidget_render_row)
  moreover have "concat (map (\<lambda>cl. [ChildElement (changelist_row cl)]) cls) =
      map (\<lambda>cl. ChildElement (changelist_row cl)) cls"
    by (induction cls) simp_all
  ultimately show ?thesis
    by (simp add: db_forEach_def)
qed

lemma SectionWidget_render_node:
  "SectionWidget_render messages w (Builder (Element t cs as ls ch) ps) =
     Builder (Element t cs as ls (ch @ [ChildElement (section_node messages w)])) ps"
  by (simp add: SectionWidget_render_def Let_def chain_Cons chain_Nil forEach_rows
      section_node_def)

lemma PopupWidget_render_nodes:
  "PopupWidget_render messages w (Builder (Element t cs as ls ch) ps) =
     Builder (Element t cs as ls
       (ch @ map (\<lambda>s. ChildElement (section_node messages s)) (getSections w))) ps"
proof -
  have "foldl (\<lambda>builder section. SectionWidget_render messages section builder)
          (Builder (Element t cs as ls ch) ps) ss =
        Builder (Element t cs as ls
          (ch @ map (\<lambda>s. ChildElement (section_node messages s)) ss)) ps" for ss
    by (induction ss arbitrary: ch) (simp_all add: SectionWidget_render_node)
  then show ?thesis
    by (simp add: PopupWidget_render_def getSections_def)
qed

lemma db_root_attach_render:
  "db_root (PopupWidget_render messages w (db_attach (Element t cs as ls ch))) =
     Element t cs as ls (ch @ map (\<lambda>s. ChildElement (section_node messages s)) (getSections w))"
  by (simp add: db_attach_def PopupWidget_render_nodes)

subsection \<open>Building the widgets\<close>

lemma create_fold:
  "foldl (\<lambda>widget attention.
            (case map_of cats attention of
               Some cls \<Rightarrow> addSection (Some (SectionWidget_create attention cls)) widget
             | None \<Rightarrow> widget)) w ord =
     w\<lparr>pw_sections := pw_sections w @
         List.map_filter (\<lambda>a. map_option (SectionWidget_create a) (map_of cats a)) ord\<rparr>"
  by (induction ord arbitrary: w)
    (auto simp: addSection_def split: option.splits)

lemma getSections_create:
  "getSections (PopupWidget_create messages cats) =
     List.map_filter (\<lambda>a. map_option (SectionWidget_create a) (map_of cats a))
       (SECTION_ORDERING messages)"
  by (simp add: PopupWidget_create_def create_fold PopupWidget_new_def getSections_def)

lemma SectionWidget_create_fold:
  "foldl (\<lambda>widget cl. addChangelist (wrap cl) widget) w cls =
     w\<lparr>sw_cls := sw_cls w @ map wrap cls\<rparr>"
  by (induction cls arbitrary: w) (simp_all add: addChangelist_def)

lemma SectionWidget_create_eq:
  "SectionWidget_create attention cls = \<lparr>sw_attention = attention, sw_cls = map wrap cls\<rparr>"
  by (simp add: SectionWidget_create_def SectionWidget_create_fold SectionWidget_new_def)







subsection \<open>The visibility switches\<close>

lemma setLoginLinkVisible_False:
  "setLoginLinkVisible False st = st\<lparr>style_display := (style_display st)(''login'' := Some ''none'')\<rparr>"
  by (simp add: setLoginLinkVisible_def setElementVisibility_def)

lemma setGrantPermissionsButtonVisible_False:
  "setGrantPermissionsButtonVisible False st =
     st\<lparr>style_display := (style_display st)(''permissions'' := Some ''none'')\<rparr>"
  by (simp add: setGrantPermissionsButtonVisible_def setElementVisibility_def)

lemma setOverlayVisible_False:
  "setOverlayVisible False st =
     st\<lparr>style_display := (style_display st)(''overlay'' := Some ''none'', ''results'' := None,
          ''permissions'' := Some ''none'', ''login'' := Some ''none'')\<rparr>"
  by (simp add: setOverlayVisible_def setLoginLinkVisible_False
      setGrantPermissionsButtonVisible_False)

lemma setOverlayVisible_True:
  "setOverlayVisible True st =
     st\<lparr>style_display := (style_display st)(''overlay'' := None, ''results'' := Some ''none'')\<rparr>"
  by (simp add: setOverlayVisible_def)

text \<open>\<open>includes_str\<close> is the substring test.\<close>

lemma includes_str_iff: "includes_str s sub \<longleftrightarrow> (\<exists>ps ss. s = ps @ sub @ ss)"
proof (induction s)
  case Nil
  then show ?case by auto
next
  case (Cons c cs)
  show ?case
  proof
    assume "includes_str (c # cs) sub"
    then consider "take (length sub) (c # cs) = sub" | "includes_str cs sub"
      by auto
    then show "\<exists>ps ss. c # cs = ps @ sub @ ss"
    proof cases
      case 1
      then have "c # cs = [] @ sub @ drop (length sub) (c # cs)"
        by (metis append_Nil append_take_drop_id)
      then show ?thesis by blast
    next
      case 2
      then obtain ps ss where "cs = ps @ sub @ ss"
        using Cons.IH by blast
      then have "c # cs = (c # ps) @ sub @ ss" by simp
      then show ?thesis by blast
    qed
  next
    assume "\<exists>ps ss. c # cs = ps @ sub @ ss"
    then obtain ps ss where eq: "c # cs = ps @ sub @ ss" by blast
    show "includes_str (c # cs) sub"
    proof (cases ps)
      case Nil
      with eq have "take (length sub) (c # cs) = sub" by simp
      then show ?thesis by simp
    next
      case (Cons p ps')
      with eq have "cs = ps' @ sub @ ss" by simp
      then have "includes_str cs sub" using Cons.IH by blast
      then show ?thesis by simp
    qed
  qed
qed

subsection \<open>The login panel\<close>

lemma remove_children_empties:
  "remove_children (Element t cs as ls ch) = Element t cs as ls []"
proof (induction ch)
  case Nil
  show ?case by (subst remove_children.simps) simp
next
  case (Cons c ch)
  show ?case by (subst remove_children.simps) (simp add: Cons.IH)
qed

lemma render_instance_appends:
  "render_instance inst (Builder (Element t cs as ls ch) ps) i =
     Builder (Element t cs as ls (ch @ instance_link inst)) ps"
  by (simp add: render_instance_def instance_link_def chain_Cons chain_Nil)

lemma forEach_instances:
  "db_forEach instances render_instance (Builder (Element t cs as ls ch) ps) =
     Builder (Element t cs as ls (ch @ concat (map instance_link instances))) ps"
  unfolding db_forEach_def
  by (rule forEach_from_appends) (rule render_instance_appends)

lemma populate_login_appends:
  "elements st ''login'' = Element t cs as ls ch \<Longrightarrow>
     populate_login instances st =
       st\<lparr>elements := (elements st)(''login'' := Element t cs as ls (ch @ [login_links instances]))\<rparr>"
  by (simp add: populate_login_def db_attach_def chain_Cons chain_Nil forEach_instances
      login_links_def)

lemma childNodes_populate_login:
  "childNodes (elements (populate_login instances st) ''login'') =
     childNodes (elements st ''login'') @ [login_links instances]"
  by (cases "elements st ''login''") (simp add: populate_login_appends)

lemma setLoginLinkVisible_True:
  "elements st ''login'' = Element t cs as ls ch \<Longrightarrow>
     setLoginLinkVisible True st =
       st\<lparr>style_display := (style_display st)(''login'' := None),
          elements := (elements st)(''login'' := Element t cs as ls []),
          pending := pending st @ [PopulateLogin]\<rparr>"
  by (simp add: setLoginLinkVisible_def setElementVisibility_def Let_def remove_children_empties)

lemma display_then_resolve:
  assumes "pending st = []"
  shows "childNodes (elements (resolve_next instances (setLoginLinkVisible True st)) ''login'') =
           [login_links instances] \<and>
         pending (resolve_next instances (setLoginLinkVisible True st)) = []"
proof (cases "elements st ''login''")
  case (Element t cs as ls ch)
  then show ?thesis
    using assms
    by (simp add: setLoginLinkVisible_True resolve_next_def populate_login_appends)
qed

lemma repeated_displays:
  assumes "pending st = []"
  shows "pending (foldl (\<lambda>st instances. resolve_next instances (setLoginLinkVisible True st)) st iss) = []"
  using assms by (induction iss arbitrary: st) (simp_all add: display_then_resolve)

subsection \<open>The claims\<close>



text \<open>
  C2. For every error value, displayError sets the overlay text to the string form of
  the error and shows the overlay (the results container is hidden with it); the login
  panel is visible afterwards exactly when that string contains the login-prompt marker,
  and the grant-permissions panel exactly when it contains the no-host-allowed marker.
  The two tests are independent, so both panels show when both markers occur and
  neither shows when neither occurs.
\<close>

theorem displayError_panels:
  "innerText (displayError toStr config error st) ''overlay-text'' = toStr error \<and>
   is_visible (displayError toStr config error st) ''overlay'' \<and>
   \<not> is_visible (displayError toStr config error st) ''results'' \<and>
   is_visible (displayError toStr config error st) ''login'' =
     includes_str (toStr error) (LOGIN_PROMPT config) \<and>
   is_visible (displayError toStr config error st) ''permissions'' =
     includes_str (toStr error) (NO_HOST_ALLOWED config) \<and>
   includes_str (toStr error) (LOGIN_PROMPT config) =
     (\<exists>ps ss. toStr error = ps @ LOGIN_PROMPT config @ ss) \<and>
   includes_str (toStr error) (NO_HOST_ALLOWED config) =
     (\<exists>ps ss. toStr error = ps @ NO_HOST_ALLOWED config @ ss)"
  by (simp add: displayError_def Let_def setOverlayVisible_True setOverlayText_def
      setLoginLinkVisible_def setGrantPermissionsButtonVisible_def setElementVisibility_def
      is_visible_def includes_str_iff)

text \<open>
  C3. renderWidget on a widget with no section sets the overlay text to NO_CLS_MESSAGE
  followed by a full stop, shows the overlay and hides the results container, whose
  content is left as it was; on a widget with at least one section it renders the widget
  into the results container (one node per section is appended, in order), hides the
  overlay and shows the results container.
\<close>

theorem renderWidget_overlay_or_results:
  "(getSections widget = [] \<longrightarrow>
      innerText (renderWidget messages widget st) ''overlay-text'' = NO_CLS_MESSAGE messages @ ''.'' \<and>
      is_visible (renderWidget messages widget st) ''overlay'' \<and>
      \<not> is_visible (renderWidget messages widget st) ''results'' \<and>
      elements (renderWidget messages widget st) = elements st) \<and>
   (getSections widget \<noteq> [] \<longrightarrow>
      elements (renderWidget messages widget st) ''results'' =
        db_root (PopupWidget_render messages widget (db_attach (elements st ''results''))) \<and>
      childNodes (elements (renderWidget messages widget st) ''results'') =
        childNodes (elements st ''results'') @
        map (\<lambda>s. ChildElement (section_node messages s)) (getSections widget) \<and>
      \<not> is_visible (renderWidget messages widget st) ''overlay'' \<and>
      is_visible (renderWidget messages widget st) ''results'' \<and>
      innerText (renderWidget messages widget st) = innerText st)"
proof (cases "elements st ''results''")
  case (Element t cs as ls ch)
  then show ?thesis
    by (simp add: renderWidget_def Let_def setOverlayVisible_True setOverlayVisible_False
        setOverlayText_def is_visible_def db_root_attach_render)
qed

text \<open>
  C3 at concrete inputs: the widget with no section, and the widget of one category.
\<close>

theorem renderWidget_overlay_or_results_witness:
  "getSections (PopupWidget_new :: string PopupWidget) = [] \<and>
   innerText (renderWidget messages0 PopupWidget_new page0) ''overlay-text'' = ''No CLs.'' \<and>
   is_visible (renderWidget messages0 PopupWidget_new page0) ''overlay'' \<and>
   \<not> is_visible (renderWidget messages0 PopupWidget_new page0) ''results'' \<and>
   getSections (PopupWidget_create messages0 [(''a'', [cl0])]) \<noteq> [] \<and>
   childNodes (elements (renderWidget messages0 (PopupWidget_create messages0 [(''a'', [cl0])]) page0)
       ''results'') =
     [ChildElement (section_node messages0 (SectionWidget_create ''a'' [cl0]))] \<and>
   \<not> is_visible (renderWidget messages0 (PopupWidget_create messages0 [(''a'', [cl0])]) page0)
       ''overlay'' \<and>
   is_visible (renderWidget messages0 (PopupWidget_create messages0 [(''a'', [cl0])]) page0) ''results''"
proof -
  have e: "getSections (PopupWidget_new :: string PopupWidget) = []"
    by (simp add: PopupWidget_new_def getSections_def)
  have n: "getSections (PopupWidget_create messages0 [(''a'', [cl0])]) =
      [SectionWidget_create ''a'' [cl0]]"
    by (simp add: getSections_create messages0_def)
  have m: "NO_CLS_MESSAGE messages0 @ ''.'' = ''No CLs.''"
    by (simp add: messages0_def)
  have c: "childNodes (elements page0 ''results'') = []"
    by (simp add: page0_def)
  have ne: "getSections (PopupWidget_create messages0 [(''a'', [cl0])]) \<noteq> []"
    by (simp add: n)
  have none: "innerText (renderWidget messages0 PopupWidget_new page0) ''overlay-text'' =
        NO_CLS_MESSAGE messages0 @ ''.'' \<and>
      is_visible (renderWidget messages0 PopupWidget_new page0) ''overlay'' \<and>
      \<not> is_visible (renderWidget messages0 PopupWidget_new page0) ''results''"
    using renderWidget_overlay_or_results [of PopupWidget_new messages0 page0] e by blast
  have some: "childNodes (elements
          (renderWidget messages0 (PopupWidget_create messages0 [(''a'', [cl0])]) page0)
          ''results'') =
        childNodes (elements page0 ''results'') @
        map (\<lambda>s. ChildElement (section_node messages0 s))
          (getSections (PopupWidget_create messages0 [(''a'', [cl0])])) \<and>
      \<not> is_visible (renderWidget messages0 (PopupWidget_create messages0 [(''a'', [cl0])]) page0)
          ''overlay'' \<and>
      is_visible (renderWidget messages0 (PopupWidget_create messages0 [(''a'', [cl0])]) page0)
          ''results''"
    using renderWidget_overlay_or_results [of "PopupWidget_create messages0 [(''a'', [cl0])]"
        messages0 page0] ne by blast
  show ?thesis
    using none some by (simp add: e n m c)
qed

text \<open>
  C4. SectionWidget.create wraps every CL record into a ChangelistWidget, in the order
  of the input: the section holds as many children as there are records, and its render
  emits the section header followed by the rows of the children in that order, every row
  being what ChangelistWidget.render emits for the child.
\<close>

theorem SectionWidget_create_preserves_order:
  "sw_attention (SectionWidget_create attention cls) = attention \<and>
   sw_cls (SectionWidget_create attention cls) = map wrap cls \<and>
   map cw_cl (sw_cls (SectionWidget_create attention cls)) = cls \<and>
   length (sw_cls (SectionWidget_create attention cls)) = length cls \<and>
   SectionWidget_render messages (SectionWidget_create attention cls)
       (Builder (Element t cs as ls ch) ps) =
     Builder (Element t cs as ls (ch @
       [ChildElement (Element ''div''
          [''section'', className (POPUP_SECTION_DATA messages attention)] [] []
          (ChildElement (Element ''div'' [''sectionheader''] [] []
             [ChildText (formatHeader (POPUP_SECTION_DATA messages attention) (length cls))])
           # map (\<lambda>cl. ChildElement (changelist_row (wrap cl))) cls))])) ps \<and>
   ChangelistWidget_render (wrap cl) (Builder (Element t cs as ls ch) ps) =
     Builder (Element t cs as ls (ch @ [ChildElement (changelist_row (wrap cl))])) ps"
  by (simp add: SectionWidget_create_eq SectionWidget_render_node section_node_def
      ChangelistWidget_render_row comp_def wrap_def)

text \<open>
  C5. The reviewers cell of a rendered ChangelistWidget holds one span for every
  reviewer of the wrapped record, in the order of the record, with the text ", " between
  two consecutive spans and nowhere else, so its text is the names joined by ", "; a
  reviewer is marked approved (class lgtmreviewer) exactly when its value is positive.
  The spec's example, A with value 1 and B with value 0, reads "A, B", A approved and B
  not; so does the cell of the rendered record \<open>cl0\<close>, which has these two reviewers.
\<close>

theorem reviewers_cell_joined:
  "db_forEach rs render_reviewer (Builder (Element t cs as ls ch) ps) =
     Builder (Element t cs as ls (ch @ separated (ChildText '', '') (map reviewer_span rs))) ps \<and>
   textContent_children (separated (ChildText '', '') (map reviewer_span rs)) =
     join '', '' (map r_name rs) \<and>
   reviewer_span r =
     ChildElement (Element ''span'' [reviewer_class r] [] [] [ChildText (r_name r)]) \<and>
   (reviewer_class r = ''lgtmreviewer'') = (r_value r > 0) \<and>
   (reviewer_class r = ''nolgtmreviewer'') = (\<not> r_value r > 0) \<and>
   ChangelistWidget_render w (Builder (Element t cs as ls ch) ps) =
     Builder (Element t cs as ls (ch @ [ChildElement (changelist_row w)])) ps \<and>
   getReviewers w = cl_reviewers (cw_cl w) \<and>
   ChangelistWidget_render w (Builder (Element t cs as ls ch) ps) =
     Builder (Element t cs as ls (ch @
       [ChildElement (row_node (cl_gerritUrl (cw_cl w))
          [''marker'', ''marker'', cl_sizeCategory (cw_cl w) @ ''size'']
          (cl_author (cw_cl w))
          (separated (ChildText '', '') (map reviewer_span (cl_reviewers (cw_cl w))))
          (d_message (cl_description (cw_cl w))))])) ps \<and>
   map textContent (elementsByClass ''reviewers''
       (db_root (ChangelistWidget_render w (db_attach (Element ''div'' [] [] [] []))))) =
     [join '', '' (map r_name (cl_reviewers (cw_cl w)))] \<and>
   textContent_children (separated (ChildText '', '')
       (map reviewer_span [\<lparr>r_name = ''A'', r_value = 1\<rparr>, \<lparr>r_name = ''B'', r_value = 0\<rparr>])) =
     ''A, B'' \<and>
   map reviewer_class [\<lparr>r_name = ''A'', r_value = 1\<rparr>, \<lparr>r_name = ''B'', r_value = 0\<rparr>] =
     [''lgtmreviewer'', ''nolgtmreviewer''] \<and>
   map textContent (elementsByClass ''reviewers''
       (db_root (ChangelistWidget_render (wrap cl0) (db_attach (Element ''div'' [] [] [] []))))) =
     [''A, B''] \<and>
   map textContent (elementsByClass ''lgtmreviewer''
       (db_root (ChangelistWidget_render (wrap cl0) (db_attach (Element ''div'' [] [] [] []))))) =
     [''A''] \<and>
   map textContent (elementsByClass ''nolgtmreviewer''
       (db_root (ChangelistWidget_render (wrap cl0) (db_attach (Element ''div'' [] [] [] []))))) =
     [''B'']"
proof -
  have marked: "(reviewer_class r = ''lgtmreviewer'') = (r_value r > 0)"
    "(reviewer_class r = ''nolgtmreviewer'') = (\<not> r_value r > 0)"
    by (simp_all add: reviewer_class_def)
  have example: "textContent_children (separated (ChildText '', '')
       (map reviewer_span [\<lparr>r_name = ''A'', r_value = 1\<rparr>, \<lparr>r_name = ''B'', r_value = 0\<rparr>])) =
     ''A, B''"
    "map reviewer_class [\<lparr>r_name = ''A'', r_value = 1\<rparr>, \<lparr>r_name = ''B'', r_value = 0\<rparr>] =
     [''lgtmreviewer'', ''nolgtmreviewer'']"
    by (simp_all add: reviewer_span_def reviewer_class_def)
  have getter: "getReviewers w = cl_reviewers (cw_cl w)"
    by (simp add: getReviewers_def)
  have row: "ChangelistWidget_render w (Builder (Element t cs as ls ch) ps) =
     Builder (Element t cs as ls (ch @
       [ChildElement (row_node (cl_gerritUrl (cw_cl w))
          [''marker'', ''marker'', cl_sizeCategory (cw_cl w) @ ''size'']
          (cl_author (cw_cl w))
          (separated (ChildText '', '') (map reviewer_span (cl_reviewers (cw_cl w))))
          (d_message (cl_description (cw_cl w))))])) ps"
    by (simp only: ChangelistWidget_render_row changelist_row_def)
  have cell: "map textContent (elementsByClass ''reviewers''
       (db_root (ChangelistWidget_render w (db_attach (Element ''div'' [] [] [] []))))) =
     [join '', '' (map r_name (cl_reviewers (cw_cl w)))]"
    by (simp add: db_attach_def ChangelistWidget_render_row changelist_row_def row_node_def
        text_separated elementsByClass_reviewer_spans)
  have rendered: "map textContent (elementsByClass ''reviewers''
       (db_root (ChangelistWidget_render (wrap cl0) (db_attach (Element ''div'' [] [] [] []))))) =
     [''A, B'']"
    "map textContent (elementsByClass ''lgtmreviewer''
       (db_root (ChangelistWidget_render (wrap cl0) (db_attach (Element ''div'' [] [] [] []))))) =
     [''A'']"
    "map textContent (elementsByClass ''nolgtmreviewer''
       (db_root (ChangelistWidget_render (wrap cl0) (db_attach (Element ''div'' [] [] [] []))))) =
     [''B'']"
    by (simp_all add: db_attach_def ChangelistWidget_render_row changelist_row_def row_node_def
        wrap_def cl0_def reviewer_span_def reviewer_class_def)
  have callback: "db_forEach rs render_reviewer (Builder (Element t cs as ls ch) ps) =
     Builder (Element t cs as ls (ch @ separated (ChildText '', '') (map reviewer_span rs))) ps"
    "textContent_children (separated (ChildText '', '') (map reviewer_span rs)) =
     join '', '' (map r_name rs)"
    "reviewer_span r =
     ChildElement (Element ''span'' [reviewer_class r] [] [] [ChildText (r_name r)])"
    "ChangelistWidget_render w (Builder (Element t cs as ls ch) ps) =
     Builder (Element t cs as ls (ch @ [ChildElement (changelist_row w)])) ps"
    by (simp_all only: forEach_reviewers text_separated ChangelistWidget_render_row
        reviewer_span_def)
  from callback marked getter row cell example rendered show ?thesis
    by blast
qed

text \<open>
  C6 (as amended). getStatusMarker returns the empty string for every wrapped CL, whatever
  its hasUnresolvedComments and isSubmittable flags: the coloured states are never
  computed. The class the render adds to the marker for the status is therefore the bare
  suffix \<open>marker\<close> (the empty string followed by \<open>marker\<close>), never a coloured one: the
  rendered marker carries the classes marker, marker and the size, and the rendering does
  not depend on the two flags.
\<close>

theorem getStatusMarker_always_empty:
  "getStatusMarker w = '''' \<and>
   getStatusMarker (wrap (cl\<lparr>cl_hasUnresolvedComments := u, cl_isSubmittable := s\<rparr>)) = '''' \<and>
   ChangelistWidget_render w (Builder (Element t cs as ls ch) ps) =
     Builder (Element t cs as ls (ch @
       [ChildElement (row_node (cl_gerritUrl (cw_cl w))
          [''marker'', ''marker'', cl_sizeCategory (cw_cl w) @ ''size'']
          (cl_author (cw_cl w))
          (separated (ChildText '', '') (map reviewer_span (cl_reviewers (cw_cl w))))
          (d_message (cl_description (cw_cl w))))])) ps \<and>
   map classList (elementsByClass ''statusmarker''
       (db_root (ChangelistWidget_render w (db_attach (Element ''div'' [] [] [] []))))) =
     [[''statusmarker'']] \<and>
   map childNodes (elementsByClass ''statusmarker''
       (db_root (ChangelistWidget_render w (db_attach (Element ''div'' [] [] [] []))))) =
     [[ChildElement (Element ''div''
         [''marker'', ''marker'', cl_sizeCategory (cw_cl w) @ ''size''] [] [] [])]] \<and>
   ChangelistWidget_render (wrap (cl\<lparr>cl_hasUnresolvedComments := u, cl_isSubmittable := s\<rparr>)) b =
     ChangelistWidget_render (wrap cl) b"
proof -
  have empty: "getStatusMarker w = ''''"
    "getStatusMarker (wrap (cl\<lparr>cl_hasUnresolvedComments := u, cl_isSubmittable := s\<rparr>)) = ''''"
    by (simp_all add: getStatusMarker_def)
  have row: "ChangelistWidget_render w (Builder (Element t cs as ls ch) ps) =
     Builder (Element t cs as ls (ch @
       [ChildElement (row_node (cl_gerritUrl (cw_cl w))
          [''marker'', ''marker'', cl_sizeCategory (cw_cl w) @ ''size'']
          (cl_author (cw_cl w))
          (separated (ChildText '', '') (map reviewer_span (cl_reviewers (cw_cl w))))
          (d_message (cl_description (cw_cl w))))])) ps"
    by (simp only: ChangelistWidget_render_row changelist_row_def)
  have marker: "map classList (elementsByClass ''statusmarker''
       (db_root (ChangelistWidget_render w (db_attach (Element ''div'' [] [] [] []))))) =
     [[''statusmarker'']]"
    "map childNodes (elementsByClass ''statusmarker''
       (db_root (ChangelistWidget_render w (db_attach (Element ''div'' [] [] [] []))))) =
     [[ChildElement (Element ''div''
         [''marker'', ''marker'', cl_sizeCategory (cw_cl w) @ ''size''] [] [] [])]]"
    by (simp_all add: db_attach_def ChangelistWidget_render_row changelist_row_def row_node_def
        elementsByClass_reviewer_spans)
  have "setHeader (wrap (cl\<lparr>cl_hasUnresolvedComments := u, cl_isSubmittable := s\<rparr>)) =
        setHeader (wrap cl)"
    by (rule ext) (simp add: setHeader_def getGerritUrl_def wrap_def)
  then have flags: "ChangelistWidget_render
        (wrap (cl\<lparr>cl_hasUnresolvedComments := u, cl_isSubmittable := s\<rparr>)) b =
      ChangelistWidget_render (wrap cl) b"
    by (simp add: getStatusMarker_def ChangelistWidget_render_def getAuthor_def
        getSizeCategory_def getReviewers_def getDescription_def) (simp add: wrap_def)
  from empty row marker flags show ?thesis
    by blast
qed

text \<open>
  C6 as stated fails in its last clause: the class rendered for the status is not the
  empty string. The marker of the rendered record \<open>cl0\<close> carries the classes marker,
  marker and smallsize, and no element of the row carries the class \<open>''\<close>.
\<close>

theorem getStatusMarker_rendered_class_counterexample:
  "map classList (elementsByClass ''marker''
       (db_root (ChangelistWidget_render (wrap cl0) (db_attach (Element ''div'' [] [] [] []))))) =
     [[''marker'', ''marker'', ''smallsize'']] \<and>
   '''' \<notin> set [''marker'', ''marker'', ''smallsize''] \<and>
   elementsByClass ''''
       (db_root (ChangelistWidget_render (wrap cl0) (db_attach (Element ''div'' [] [] [] [])))) = []"
  by (simp add: db_attach_def ChangelistWidget_render_row changelist_row_def row_node_def
      wrap_def cl0_def reviewer_span_def reviewer_class_def)

text \<open>
  C7. Showing the overlay is idempotent: from every page, calling setOverlayVisible(true)
  twice leaves the same page as calling it once.
\<close>

theorem setOverlayVisible_show_idempotent:
  "setOverlayVisible True (setOverlayVisible True st) = setOverlayVisible True st"
  by (simp add: setOverlayVisible_def)

text \<open>
  C8. setOverlayVisible(false) hides the overlay, shows the results container and hides
  the login panel and the grant-permissions panel; setOverlayVisible(true) shows the
  overlay, hides the results container and changes nothing else, so the login panel and
  the grant-permissions panel keep their visibility.
\<close>

theorem setOverlayVisible_frame:
  "style_display (setOverlayVisible False st) ''overlay'' = Some ''none'' \<and>
   style_display (setOverlayVisible False st) ''results'' = None \<and>
   style_display (setOverlayVisible False st) ''login'' = Some ''none'' \<and>
   style_display (setOverlayVisible False st) ''permissions'' = Some ''none'' \<and>
   \<not> is_visible (setOverlayVisible False st) ''overlay'' \<and>
   is_visible (setOverlayVisible False st) ''results'' \<and>
   \<not> is_visible (setOverlayVisible False st) ''login'' \<and>
   \<not> is_visible (setOverlayVisible False st) ''permissions'' \<and>
   style_display (setOverlayVisible True st) ''overlay'' = None \<and>
   style_display (setOverlayVisible True st) ''results'' = Some ''none'' \<and>
   is_visible (setOverlayVisible True st) ''overlay'' \<and>
   \<not> is_visible (setOverlayVisible True st) ''results'' \<and>
   style_display (setOverlayVisible True st) ''login'' = style_display st ''login'' \<and>
   style_display (setOverlayVisible True st) ''permissions'' = style_display st ''permissions'' \<and>
   is_visible (setOverlayVisible True st) ''login'' = is_visible st ''login'' \<and>
   is_visible (setOverlayVisible True st) ''permissions'' = is_visible st ''permissions'' \<and>
   setOverlayVisible True st =
     st\<lparr>style_display := (style_display st)(''overlay'' := None, ''results'' := Some ''none'')\<rparr>"
  by (simp add: setOverlayVisible_False setOverlayVisible_True is_visible_def)

text \<open>
  C9 (as amended). setLoginLinkVisible(true) shows the login element, removes all its
  children and leaves one callback waiting; when the callback runs it appends one div
  with one link (and a line break) for every allowed instance. When no other callback is
  waiting, the panel holds exactly that one div afterwards, so displays whose callback
  has run before the next display never accumulate links. setLoginLinkVisible(false)
  hides the element and changes neither its children nor the waiting callbacks.
\<close>

theorem setLoginLinkVisible_clears_then_repopulates:
  "childNodes (elements (setLoginLinkVisible True st) ''login'') = [] \<and>
   pending (setLoginLinkVisible True st) = pending st @ [PopulateLogin] \<and>
   is_visible (setLoginLinkVisible True st) ''login'' \<and>
   childNodes (elements (populate_login instances st) ''login'') =
     childNodes (elements st ''login'') @ [login_links instances] \<and>
   (pending st = [] \<longrightarrow>
      childNodes (elements (resolve_next instances (setLoginLinkVisible True st)) ''login'') =
        [login_links instances] \<and>
      pending (resolve_next instances (setLoginLinkVisible True st)) = []) \<and>
   (pending st = [] \<longrightarrow>
      childNodes (elements
          (foldl (\<lambda>st instances. resolve_next instances (setLoginLinkVisible True st)) st
             (iss @ [instances])) ''login'') =
        [login_links instances]) \<and>
   setLoginLinkVisible False st =
     st\<lparr>style_display := (style_display st)(''login'' := Some ''none'')\<rparr> \<and>
   elements (setLoginLinkVisible False st) = elements st \<and>
   pending (setLoginLinkVisible False st) = pending st \<and>
   \<not> is_visible (setLoginLinkVisible False st) ''login''"
proof -
  have shown: "childNodes (elements (setLoginLinkVisible True st) ''login'') = [] \<and>
      pending (setLoginLinkVisible True st) = pending st @ [PopulateLogin] \<and>
      is_visible (setLoginLinkVisible True st) ''login''"
    by (cases "elements st ''login''") (simp add: setLoginLinkVisible_True is_visible_def)
  have once: "pending st = [] \<longrightarrow>
      childNodes (elements (resolve_next instances (setLoginLinkVisible True st)) ''login'') =
        [login_links instances] \<and>
      pending (resolve_next instances (setLoginLinkVisible True st)) = []"
    using display_then_resolve by blast
  have many: "pending st = [] \<longrightarrow>
      childNodes (elements
          (foldl (\<lambda>st instances. resolve_next instances (setLoginLinkVisible True st)) st
             (iss @ [instances])) ''login'') =
        [login_links instances]"
    by (simp add: repeated_displays display_then_resolve)
  have hidden: "setLoginLinkVisible False st =
      st\<lparr>style_display := (style_display st)(''login'' := Some ''none'')\<rparr> \<and>
      elements (setLoginLinkVisible False st) = elements st \<and>
      pending (setLoginLinkVisible False st) = pending st \<and>
      \<not> is_visible (setLoginLinkVisible False st) ''login''"
    by (simp add: setLoginLinkVisible_False is_visible_def)
  from shown once many hidden childNodes_populate_login show ?thesis
    by blast
qed

text \<open>
  C9 as stated fails: two displays before the first callback has run leave two callbacks
  waiting, and the panel ends with the links twice.
\<close>

theorem setLoginLinkVisible_overlapping_displays_counterexample:
  "childNodes (elements
      (resolve_next [instance0] (resolve_next [instance0]
         (setLoginLinkVisible True (setLoginLinkVisible True page0)))) ''login'') =
     [login_links [instance0], login_links [instance0]]"
proof -
  have e: "elements page0 ''login'' = Element ''div'' [] [] [] []"
    by (simp add: page0_def)
  have "setLoginLinkVisible True (setLoginLinkVisible True page0) =
      page0\<lparr>style_display := (style_display page0)(''login'' := None),
            elements := (elements page0)(''login'' := Element ''div'' [] [] [] []),
            pending := [PopulateLogin, PopulateLogin]\<rparr>"
    by (simp add: setLoginLinkVisible_True [where t = "''div''" and cs = "[]" and as = "[]"
          and ls = "[]" and ch = "[]"] page0_def)
  then show ?thesis
    by (simp add: resolve_next_def
        populate_login_appends [where t = "''div''" and cs = "[]" and as = "[]" and ls = "[]"])
qed

text \<open>
  C9 at a concrete input: the empty page, one display, and three displays in a row each
  followed by its callback.
\<close>

theorem setLoginLinkVisible_clears_then_repopulates_witness:
  "pending page0 = [] \<and>
   childNodes (elements (resolve_next [instance0] (setLoginLinkVisible True page0)) ''login'') =
     [login_links [instance0]] \<and>
   childNodes (elements
       (foldl (\<lambda>st instances. resolve_next instances (setLoginLinkVisible True st)) page0
          ([[instance0], []] @ [[instance0]])) ''login'') =
     [login_links [instance0]] \<and>
   elements (setLoginLinkVisible False page0) = elements page0"
  using setLoginLinkVisible_clears_then_repopulates [of page0 "[instance0]" "[[instance0], []]"]
  by (simp add: page0_def)

text \<open>
  C10. addSection(null) leaves the widget as it is; addSection(s) for a section s appends
  s at the end of the section list, which getSections returns.
\<close>

theorem addSection_null_noop_else_append:
  "addSection None w = w \<and>
   getSections (addSection None w) = getSections w \<and>
   getSections (addSection (Some s) w) = getSections w @ [s]"
  by (simp add: addSection_def getSections_def)

end
